theory Spec2Isabelle
  imports Complex_Main "HOL-Library.Sublist"
begin

section \<open>Domain model (bookfinder.go)\<close>

text \<open>
  \<open>SearchType\<close> is a string type in the source with four declared constants; the
  classifier only ever returns these four, so the model is the enumeration of them.
\<close>

datatype SearchType =
    SearchTypeISBN
  | SearchTypeTitleAuthor
  | SearchTypeTitle
  | SearchTypeGeneralQuery

text \<open>
  \<open>BookResult\<close>, field for field. \<open>Confidence\<close> is a \<open>float64\<close> in the source; the
  model computes with exact reals, so statements about it are statements about the
  arithmetic the code is written to perform, not about binary rounding.
  \<open>GoogleBooksData\<close> is the raw JSON message, \<open>None\<close> for the nil slice.
\<close>

record BookResult =
  Title :: string
  Authors :: "string list"
  ISBN10 :: string
  ISBN13 :: string
  Publisher :: string
  PublishedYear :: int
  Language :: string
  GoogleBooksVolumeID :: string
  ThumbnailURL :: string
  GoogleBooksData :: "string option"
  Confidence :: real
  SearchType :: SearchType

section \<open>The vendor record (google.golang.org/api/books/v1)\<close>

text \<open>
  Only the fields the source reads. \<open>VolumeInfo\<close> and \<open>ImageLinks\<close> are pointers that the
  source compares with nil, so they are options. The volume pointer itself and the
  elements of the identifier list are taken as non-nil.
\<close>

record VolumeVolumeInfoIndustryIdentifiers =
  idType :: string
  Identifier :: string

record VolumeVolumeInfoImageLinks =
  Thumbnail :: string
  SmallThumbnail :: string

record VolumeVolumeInfo =
  viTitle :: string
  viAuthors :: "string list"
  IndustryIdentifiers :: "VolumeVolumeInfoIndustryIdentifiers list"
  viPublisher :: string
  viLanguage :: string
  PublishedDate :: string
  ImageLinks :: "VolumeVolumeInfoImageLinks option"

record Volume =
  Id :: string
  VolumeInfo :: "VolumeVolumeInfo option"

datatype error =
    ErrQueryEmpty
  | ErrUpstream string
  | ErrNilPointer

section \<open>Scoring (client.go, calculateConfidence)\<close>

text \<open>The map literal of the source: two keys.\<close>

definition baseConfidence :: "SearchType \<rightharpoonup> real" where
  "baseConfidence = [SearchTypeISBN \<mapsto> 0.95, SearchTypeGeneralQuery \<mapsto> 0.70]"

text \<open>Indexing a Go map with an absent key yields the zero value.\<close>

definition lookupConfidence :: "SearchType \<Rightarrow> real" where
  "lookupConfidence st = (case baseConfidence st of None \<Rightarrow> 0 | Some c \<Rightarrow> c)"

definition dataPoints :: "VolumeVolumeInfo \<Rightarrow> nat" where
  "dataPoints vi =
     (if viTitle vi \<noteq> [] then 1 else 0)
   + (if length (viAuthors vi) > 0 then 1 else 0)
   + (if length (IndustryIdentifiers vi) > 0 then 1 else 0)
   + (if viPublisher vi \<noteq> [] then 1 else 0)"

definition totalPoints :: nat where
  "totalPoints = 4"

definition calculateConfidence :: "SearchType \<Rightarrow> Volume \<Rightarrow> real" where
  "calculateConfidence searchType volume =
     (let confidence = lookupConfidence searchType in
      case VolumeInfo volume of
        None \<Rightarrow> confidence
      | Some vi \<Rightarrow>
          (let completeness = real (dataPoints vi) / real totalPoints
           in confidence * (0.7 + 0.3 * completeness)))"

text \<open>
  The specification's scoring rule, in its own words: a four-tier base table and the
  fraction of the four signals that hold.
\<close>

definition spec_base :: "SearchType \<Rightarrow> real" where
  "spec_base st = (case st of
       SearchTypeISBN \<Rightarrow> 0.95
     | SearchTypeTitleAuthor \<Rightarrow> 0.85
     | SearchTypeTitle \<Rightarrow> 0.70
     | SearchTypeGeneralQuery \<Rightarrow> 0.50)"

definition spec_signals :: "VolumeVolumeInfo \<Rightarrow> bool list" where
  "spec_signals vi =
     [viTitle vi \<noteq> [], viAuthors vi \<noteq> [], IndustryIdentifiers vi \<noteq> [], viPublisher vi \<noteq> []]"

definition spec_completeness :: "VolumeVolumeInfo \<Rightarrow> real" where
  "spec_completeness vi = real (length (filter id (spec_signals vi))) / 4"

section \<open>Projection (client.go)\<close>

subsection \<open>strconv.Atoi\<close>

definition isDigit :: "char \<Rightarrow> bool" where
  "isDigit c = (48 \<le> (of_char c :: nat) \<and> (of_char c :: nat) \<le> 57)"

definition digitVal :: "char \<Rightarrow> int" where
  "digitVal c = int (of_char c :: nat) - 48"

definition digitsVal :: "string \<Rightarrow> int" where
  "digitsVal ds = foldl (\<lambda>n ch. n * 10 + digitVal ch) 0 ds"

text \<open>
  Base-10 parse of an optionally signed digit string into a 64-bit \<open>int\<close>; \<open>None\<close> is the
  syntax or range error.
\<close>

definition Atoi :: "string \<Rightarrow> int option" where
  "Atoi s =
     (case s of
        [] \<Rightarrow> None
      | c # cs \<Rightarrow>
          (let neg = (c = CHR ''-'');
               ds = (if c = CHR ''-'' \<or> c = CHR ''+'' then cs else s)
           in if ds = [] \<or> \<not> list_all isDigit ds then None
              else (let n = digitsVal ds; v = (if neg then - n else n)
                    in if v < - (2 ^ 63) \<or> v > 2 ^ 63 - 1 then None else Some v)))"

subsection \<open>strings.Split with a one-byte separator\<close>

fun Split :: "string \<Rightarrow> char \<Rightarrow> string list" where
  "Split [] sep = [[]]"
| "Split (c # cs) sep =
     (if c = sep then [] # Split cs sep
      else (case Split cs sep of
              [] \<Rightarrow> [[c]]
            | p # ps \<Rightarrow> (c # p) # ps))"

subsection \<open>extractYear\<close>

definition yearOf :: "string \<Rightarrow> int option" where
  "yearOf s = (case Atoi s of
       None \<Rightarrow> None
     | Some year \<Rightarrow> if year > 1000 \<and> year < 3000 then Some year else None)"

definition extractYear :: "string \<Rightarrow> int" where
  "extractYear dateStr =
     (case yearOf dateStr of
        Some year \<Rightarrow> year
      | None \<Rightarrow>
          (case Split dateStr (CHR ''-'') of
             [] \<Rightarrow> 0
           | p0 # _ \<Rightarrow> (case yearOf p0 of Some year \<Rightarrow> year | None \<Rightarrow> 0)))"

text \<open>
  The specification's "leading year token" of a date string: the text before the first
  hyphen (the whole string when it has none).
\<close>

definition leadingToken :: "string \<Rightarrow> string" where
  "leadingToken dateStr = takeWhile (\<lambda>c. c \<noteq> CHR ''-'') dateStr"

subsection \<open>ensureHTTPS\<close>

definition ensureHTTPS :: "string \<Rightarrow> string" where
  "ensureHTTPS url =
     (if url = [] then []
      else if prefix ''http://'' url then ''https://'' @ drop (length ''http://'') url
      else url)"

subsection \<open>volumeToBookResult\<close>

text \<open>The loop over the identifier list: a later entry of a type overwrites an earlier one.\<close>

definition extractISBN :: "BookResult \<Rightarrow> VolumeVolumeInfoIndustryIdentifiers \<Rightarrow> BookResult" where
  "extractISBN result identifier =
     (if idType identifier = ''ISBN_10'' then result\<lparr>ISBN10 := Identifier identifier\<rparr>
      else if idType identifier = ''ISBN_13'' then result\<lparr>ISBN13 := Identifier identifier\<rparr>
      else result)"

definition backfillISBN :: "string \<Rightarrow> BookResult \<Rightarrow> BookResult" where
  "backfillISBN detectedISBN result =
     (if detectedISBN \<noteq> [] \<and> ISBN10 result = [] \<and> ISBN13 result = [] then
        (if length detectedISBN = 10 then result\<lparr>ISBN10 := detectedISBN\<rparr>
         else if length detectedISBN = 13 then result\<lparr>ISBN13 := detectedISBN\<rparr>
         else result)
      else result)"

definition thumbnailOf :: "VolumeVolumeInfo \<Rightarrow> BookResult \<Rightarrow> BookResult" where
  "thumbnailOf vi result =
     (case ImageLinks vi of
        None \<Rightarrow> result
      | Some links \<Rightarrow>
          (if Thumbnail links \<noteq> [] then result\<lparr>ThumbnailURL := ensureHTTPS (Thumbnail links)\<rparr>
           else if SmallThumbnail links \<noteq> []
             then result\<lparr>ThumbnailURL := ensureHTTPS (SmallThumbnail links)\<rparr>
           else result))"

text \<open>
  The first statement reads \<open>volume.VolumeInfo.Title\<close> with no nil check: a nil
  \<open>VolumeInfo\<close> is the run-time panic, here \<open>Inl ErrNilPointer\<close>.
\<close>

definition volumeToBookResult :: "Volume \<Rightarrow> SearchType \<Rightarrow> string \<Rightarrow> error + BookResult" where
  "volumeToBookResult volume searchType detectedISBN =
     (case VolumeInfo volume of
        None \<Rightarrow> Inl ErrNilPointer
      | Some vi \<Rightarrow>
          (let result = \<lparr>Title = viTitle vi, Authors = viAuthors vi, ISBN10 = [], ISBN13 = [],
                          Publisher = [], PublishedYear = 0, Language = [],
                          GoogleBooksVolumeID = Id volume, ThumbnailURL = [],
                          GoogleBooksData = None, Confidence = 0, SearchType = searchType\<rparr>;
               result = foldl extractISBN result (IndustryIdentifiers vi);
               result = backfillISBN detectedISBN result;
               result = result\<lparr>Publisher := viPublisher vi, Language := viLanguage vi\<rparr>;
               result = (if PublishedDate vi \<noteq> []
                         then result\<lparr>PublishedYear := extractYear (PublishedDate vi)\<rparr>
                         else result);
               result = thumbnailOf vi result;
               result = result\<lparr>Confidence := calculateConfidence searchType volume\<rparr>
           in Inr result))"

section \<open>Regular expressions (the regexp package, as far as parser.go uses it)\<close>

text \<open>
  The three patterns of parser.go use byte classes, concatenation, alternation, greedy
  \<open>?\<close>, bounded greedy repetition, greedy \<open>+\<close> over a class, and the ASCII word boundary.
  Matching is the leftmost match, and among the matches at that position the one a
  backtracking search prefers (greedy operators try the longer alternative first).
  A position is the previous byte (if any) and the rest of the input.
\<close>

datatype re =
    Eps
  | Cls "char \<Rightarrow> bool"
  | Seq re re
  | Alt re re
  | Opt re
  | Many "char \<Rightarrow> bool"
  | WordB

type_synonym pos = "char option \<times> string"

definition isUpper :: "char \<Rightarrow> bool" where
  "isUpper c = (65 \<le> (of_char c :: nat) \<and> (of_char c :: nat) \<le> 90)"

definition isLower :: "char \<Rightarrow> bool" where
  "isLower c = (97 \<le> (of_char c :: nat) \<and> (of_char c :: nat) \<le> 122)"

definition isWordChar :: "char \<Rightarrow> bool" where
  "isWordChar c = (isDigit c \<or> isUpper c \<or> isLower c \<or> c = CHR ''_'')"

definition wordBefore :: "pos \<Rightarrow> bool" where
  "wordBefore st = (case fst st of None \<Rightarrow> False | Some c \<Rightarrow> isWordChar c)"

definition wordAfter :: "pos \<Rightarrow> bool" where
  "wordAfter st = (case snd st of [] \<Rightarrow> False | c # _ \<Rightarrow> isWordChar c)"

definition atBoundary :: "pos \<Rightarrow> bool" where
  "atBoundary st = (wordBefore st \<noteq> wordAfter st)"

fun many :: "(char \<Rightarrow> bool) \<Rightarrow> (pos \<Rightarrow> 'a option) \<Rightarrow> char option \<Rightarrow> string \<Rightarrow> 'a option" where
  "many p k prev [] = k (prev, [])"
| "many p k prev (c # cs) =
     (if p c then (case many p k (Some c) cs of
                     Some r \<Rightarrow> Some r
                   | None \<Rightarrow> k (prev, c # cs))
      else k (prev, c # cs))"

fun step :: "(char \<Rightarrow> bool) \<Rightarrow> (pos \<Rightarrow> 'a option) \<Rightarrow> pos \<Rightarrow> 'a option" where
  "step p k (prev, []) = None"
| "step p k (prev, c # cs) = (if p c then k (Some c, cs) else None)"

fun match :: "re \<Rightarrow> (pos \<Rightarrow> 'a option) \<Rightarrow> pos \<Rightarrow> 'a option" where
  "match Eps k st = k st"
| "match (Cls p) k st = step p k st"
| "match (Seq a b) k st = match a (match b k) st"
| "match (Alt a b) k st = (case match a k st of Some r \<Rightarrow> Some r | None \<Rightarrow> match b k st)"
| "match (Opt a) k st = (case match a k st of Some r \<Rightarrow> Some r | None \<Rightarrow> k st)"
| "match (Many p) k st = many p k (fst st) (snd st)"
| "match WordB k st = (if atBoundary st then k st else None)"

text \<open>\<open>x{lo,hi}\<close>, unrolled the way the regexp compiler unrolls it.\<close>

fun rep :: "re \<Rightarrow> nat \<Rightarrow> nat \<Rightarrow> re" where
  "rep r 0 0 = Eps"
| "rep r 0 (Suc n) = Opt (Seq r (rep r 0 n))"
| "rep r (Suc m) 0 = Eps"
| "rep r (Suc m) (Suc n) = Seq r (rep r m n)"

definition accept :: "pos \<Rightarrow> string option" where
  "accept st = Some (snd st)"

text \<open>
  The text of the leftmost match. In the two ISBN patterns only zero-width \<open>\\b\<close> lies
  outside the parentheses, so the text of group 1 is the text of the whole match; the
  author pattern is only tested for a match.
\<close>

fun FindStringSubmatch :: "re \<Rightarrow> char option \<Rightarrow> string \<Rightarrow> string option" where
  "FindStringSubmatch r prev [] =
     (case match r accept (prev, []) of Some rest \<Rightarrow> Some [] | None \<Rightarrow> None)"
| "FindStringSubmatch r prev (c # cs) =
     (case match r accept (prev, c # cs) of
        Some rest \<Rightarrow> Some (take (length (c # cs) - length rest) (c # cs))
      | None \<Rightarrow> FindStringSubmatch r (Some c) cs)"

section \<open>Query classification (parser.go)\<close>

subsection \<open>The three patterns\<close>

text \<open>\<open>\\s\<close> of the regexp package: tab, line feed, form feed, carriage return, space.\<close>

definition isSpaceRE :: "char \<Rightarrow> bool" where
  "isSpaceRE c = (c = CHR 0x09 \<or> c = CHR 0x0A \<or> c = CHR 0x0C \<or> c = CHR 0x0D \<or> c = CHR '' '')"

definition isSep :: "char \<Rightarrow> bool" where
  "isSep c = (c = CHR ''-'' \<or> isSpaceRE c)"

definition lit :: "char \<Rightarrow> re" where
  "lit c = Cls (\<lambda>x. x = c)"

text \<open>A letter under the flag \<open>(?i)\<close>: the lower-case letter given, or its upper-case form.\<close>

definition toLowerASCII :: "char \<Rightarrow> char" where
  "toLowerASCII c = (if isUpper c then char_of ((of_char c :: nat) + 32) else c)"

definition liti :: "char \<Rightarrow> re" where
  "liti c = Cls (\<lambda>x. toLowerASCII x = c)"

definition seqs :: "re list \<Rightarrow> re" where
  "seqs rs = foldr Seq rs Eps"

definition digit :: re where
  "digit = Cls isDigit"

text \<open>\<^verbatim>\<open>\b(\d{1,5}[-\s]?\d{1,7}[-\s]?\d{1,7}[-\s]?\d)\b\<close>\<close>

definition isbn10Pattern :: re where
  "isbn10Pattern =
     seqs [WordB, rep digit 1 5, Opt (Cls isSep), rep digit 1 7, Opt (Cls isSep),
           rep digit 1 7, Opt (Cls isSep), digit, WordB]"

text \<open>\<^verbatim>\<open>\b(97[89][-\s]?\d{1,5}[-\s]?\d{1,7}[-\s]?\d{1,7}[-\s]?\d)\b\<close>\<close>

definition isbn13Pattern :: re where
  "isbn13Pattern =
     seqs [WordB, lit (CHR ''9''), lit (CHR ''7''), Cls (\<lambda>c. c = CHR ''8'' \<or> c = CHR ''9''),
           Opt (Cls isSep), rep digit 1 5, Opt (Cls isSep), rep digit 1 7, Opt (Cls isSep),
           rep digit 1 7, Opt (Cls isSep), digit, WordB]"

text \<open>\<^verbatim>\<open>(?i)\b(?:by|author:|written by)\s+([^,\n]+)\<close>\<close>

definition notCommaNewline :: "char \<Rightarrow> bool" where
  "notCommaNewline c = (c \<noteq> CHR '','' \<and> c \<noteq> CHR 0x0A)"

definition authorPattern :: re where
  "authorPattern =
     seqs [WordB,
           Alt (seqs (map liti ''by''))
             (Alt (seqs (map liti ''author:''))
                  (seqs (map liti ''written by''))),
           Cls isSpaceRE, Many isSpaceRE,
           Cls notCommaNewline, Many notCommaNewline]"

subsection \<open>strings.TrimSpace\<close>

text \<open>
  The UTF-8 encodings of the code points \<open>unicode.IsSpace\<close> accepts: the six ASCII ones,
  U+0085, U+00A0, U+1680, U+2000 to U+200A, U+2028, U+2029, U+202F, U+205F, U+3000.
\<close>

definition spaceRunes :: "string list" where
  "spaceRunes =
     [[CHR 0x09], [CHR 0x0A], [CHR 0x0B], [CHR 0x0C], [CHR 0x0D], [CHR 0x20],
      [CHR 0xC2, CHR 0x85], [CHR 0xC2, CHR 0xA0],
      [CHR 0xE1, CHR 0x9A, CHR 0x80],
      [CHR 0xE2, CHR 0x80, CHR 0x80], [CHR 0xE2, CHR 0x80, CHR 0x81],
      [CHR 0xE2, CHR 0x80, CHR 0x82], [CHR 0xE2, CHR 0x80, CHR 0x83],
      [CHR 0xE2, CHR 0x80, CHR 0x84], [CHR 0xE2, CHR 0x80, CHR 0x85],
      [CHR 0xE2, CHR 0x80, CHR 0x86], [CHR 0xE2, CHR 0x80, CHR 0x87],
      [CHR 0xE2, CHR 0x80, CHR 0x88], [CHR 0xE2, CHR 0x80, CHR 0x89],
      [CHR 0xE2, CHR 0x80, CHR 0x8A],
      [CHR 0xE2, CHR 0x80, CHR 0xA8], [CHR 0xE2, CHR 0x80, CHR 0xA9],
      [CHR 0xE2, CHR 0x80, CHR 0xAF],
      [CHR 0xE2, CHR 0x81, CHR 0x9F],
      [CHR 0xE3, CHR 0x80, CHR 0x80]]"

text \<open>The width in bytes of the white-space rune the string starts with, 0 when it starts with none.\<close>

definition spaceWidth :: "string list \<Rightarrow> string \<Rightarrow> nat" where
  "spaceWidth toks s = (case find (\<lambda>t. prefix t s) toks of None \<Rightarrow> 0 | Some t \<Rightarrow> length t)"

text \<open>No encoding is a proper prefix of another, so the leading rune is determined.\<close>

definition prefixFree :: "string list \<Rightarrow> bool" where
  "prefixFree toks = (\<forall>t\<in>set toks. \<forall>t'\<in>set toks. prefix t t' \<longrightarrow> t = t')"

fun trimPrefix :: "string list \<Rightarrow> string \<Rightarrow> string" where
  "trimPrefix toks [] = []"
| "trimPrefix toks (c # cs) =
     (case spaceWidth toks (c # cs) of
        0 \<Rightarrow> c # cs
      | Suc n \<Rightarrow> trimPrefix toks (drop n cs))"

text \<open>
  Trailing runes are decoded backwards; a white-space rune ends the string exactly when
  its encoding is a suffix, so the right trim is the left trim of the reversed string
  against the reversed encodings.
\<close>

definition TrimSpace :: "string \<Rightarrow> string" where
  "TrimSpace s = rev (trimPrefix (map rev spaceRunes) (rev (trimPrefix spaceRunes s)))"

subsection \<open>ParseQuery and its helpers\<close>

definition cleanISBN :: "string \<Rightarrow> string" where
  "cleanISBN isbn = filter (\<lambda>c. c \<noteq> CHR '' '') (filter (\<lambda>c. c \<noteq> CHR ''-'') isbn)"

fun isAllDigits :: "string \<Rightarrow> bool" where
  "isAllDigits [] = True"
| "isAllDigits (r # rs) = (if \<not> isDigit r then False else isAllDigits rs)"

fun containsNumbers :: "string \<Rightarrow> bool" where
  "containsNumbers [] = False"
| "containsNumbers (r # rs) = (if isDigit r then True else containsNumbers rs)"

definition validateISBN10 :: "string \<Rightarrow> bool" where
  "validateISBN10 isbn = (length isbn = 10 \<and> isAllDigits isbn)"

definition validateISBN13 :: "string \<Rightarrow> bool" where
  "validateISBN13 isbn =
     (if length isbn \<noteq> 13 \<or> \<not> isAllDigits isbn then False
      else prefix ''978'' isbn \<or> prefix ''979'' isbn)"

text \<open>The two guarded blocks at the head of \<open>ParseQuery\<close>: a match that validates.\<close>

definition detectISBN13 :: "string \<Rightarrow> string option" where
  "detectISBN13 cleanInput =
     (case FindStringSubmatch isbn13Pattern None cleanInput of
        None \<Rightarrow> None
      | Some m \<Rightarrow> if validateISBN13 (cleanISBN m) then Some (cleanISBN m) else None)"

definition detectISBN10 :: "string \<Rightarrow> string option" where
  "detectISBN10 cleanInput =
     (case FindStringSubmatch isbn10Pattern None cleanInput of
        None \<Rightarrow> None
      | Some m \<Rightarrow> if validateISBN10 (cleanISBN m) then Some (cleanISBN m) else None)"

definition hasAuthorMarker :: "string \<Rightarrow> bool" where
  "hasAuthorMarker cleanInput =
     (case FindStringSubmatch authorPattern None cleanInput of None \<Rightarrow> False | Some m \<Rightarrow> True)"

definition ParseQuery :: "string \<Rightarrow> string \<times> SearchType \<times> string" where
  "ParseQuery input =
     (let cleanInput = TrimSpace input in
      case detectISBN13 cleanInput of
        Some isbn \<Rightarrow> (''isbn:'' @ isbn, SearchTypeISBN, isbn)
      | None \<Rightarrow>
      (case detectISBN10 cleanInput of
        Some isbn \<Rightarrow> (''isbn:'' @ isbn, SearchTypeISBN, isbn)
      | None \<Rightarrow>
      if hasAuthorMarker cleanInput then (cleanInput, SearchTypeTitleAuthor, [])
      else if \<not> containsNumbers cleanInput \<and> length cleanInput < 100
        then (''intitle:'' @ [CHR 0x22] @ cleanInput @ [CHR 0x22], SearchTypeTitle, [])
      else (cleanInput, SearchTypeGeneralQuery, [])))"

section \<open>Search (client.go)\<close>

text \<open>
  The books service and the JSON encoder are outside the repository: \<open>listVolumes\<close> is the
  call \<open>Volumes.List(q).Do()\<close> (an error message or the items), \<open>marshal\<close> is
  \<open>json.Marshal\<close> (\<open>None\<close> when it fails).
\<close>

fun convertItems ::
  "(Volume \<Rightarrow> string option) \<Rightarrow> SearchType \<Rightarrow> string \<Rightarrow> Volume list \<Rightarrow> error + BookResult list" where
  "convertItems marshal searchType detectedISBN [] = Inr []"
| "convertItems marshal searchType detectedISBN (volume # items) =
     (case volumeToBookResult volume searchType detectedISBN of
        Inl e \<Rightarrow> Inl e
      | Inr result \<Rightarrow>
          (case convertItems marshal searchType detectedISBN items of
             Inl e \<Rightarrow> Inl e
           | Inr results \<Rightarrow> Inr (result\<lparr>GoogleBooksData := marshal volume\<rparr> # results)))"

definition Search ::
  "(string \<Rightarrow> string + Volume list) \<Rightarrow> (Volume \<Rightarrow> string option) \<Rightarrow> string \<Rightarrow> error + BookResult list" where
  "Search listVolumes marshal query =
     (if query = [] then Inl ErrQueryEmpty
      else (case ParseQuery query of
              (searchQuery, searchType, detectedISBN) \<Rightarrow>
                (case listVolumes searchQuery of
                   Inl msg \<Rightarrow> Inl (ErrUpstream msg)
                 | Inr items \<Rightarrow> convertItems marshal searchType detectedISBN items)))"

section \<open>Example records\<close>

definition exampleInfo :: VolumeVolumeInfo where
  "exampleInfo =
     \<lparr>viTitle = ''The Great Gatsby'', viAuthors = [''F. Scott Fitzgerald''],
      IndustryIdentifiers = [\<lparr>idType = ''ISBN_13'', Identifier = ''9780743273565''\<rparr>],
      viPublisher = ''Scribner'', viLanguage = ''en'', PublishedDate = ''2004-09-30'',
      ImageLinks = None\<rparr>"

definition exampleVolume :: Volume where
  "exampleVolume = \<lparr>Id = ''iXn5U2IzVH0C'', VolumeInfo = Some exampleInfo\<rparr>"

definition nilVolume :: Volume where
  "nilVolume = \<lparr>Id = ''iXn5U2IzVH0C'', VolumeInfo = None\<rparr>"

definition exampleResult :: BookResult where
  "exampleResult =
     \<lparr>Title = ''The Great Gatsby'', Authors = [''F. Scott Fitzgerald''], ISBN10 = [],
      ISBN13 = ''9780743273565'', Publisher = ''Scribner'', PublishedYear = 2004,
      Language = ''en'', GoogleBooksVolumeID = ''iXn5U2IzVH0C'', ThumbnailURL = [],
      GoogleBooksData = None, Confidence = 0.95, SearchType = SearchTypeISBN\<rparr>"

section \<open>The scorer\<close>

lemma dataPoints_spec: "real (dataPoints vi) / real totalPoints = spec_completeness vi"
  by (simp add: dataPoints_def totalPoints_def spec_completeness_def spec_signals_def)

lemma lookupConfidence_bounds: "0 \<le> lookupConfidence st \<and> lookupConfidence st \<le> 0.95"
  by (cases st) (simp_all add: lookupConfidence_def baseConfidence_def)

lemma completeness_bounds: "0 \<le> spec_completeness vi \<and> spec_completeness vi \<le> 1"
  by (simp add: spec_completeness_def spec_signals_def)

lemma calculateConfidence_Some:
  "VolumeInfo volume = Some vi \<Longrightarrow>
   calculateConfidence st volume = lookupConfidence st * (0.7 + 0.3 * spec_completeness vi)"
  by (simp add: calculateConfidence_def dataPoints_spec Let_def)

lemma calculateConfidence_unit:
  "0 \<le> calculateConfidence st volume \<and> calculateConfidence st volume \<le> 1"
proof (cases "VolumeInfo volume")
  case None
  then show ?thesis
    using lookupConfidence_bounds [of st] by (simp add: calculateConfidence_def)
next
  case (Some vi)
  let ?b = "lookupConfidence st" and ?m = "0.7 + 0.3 * spec_completeness vi"
  have b: "0 \<le> ?b" "?b \<le> 1" using lookupConfidence_bounds [of st] by auto
  have m: "0 \<le> ?m" "?m \<le> 1" using completeness_bounds [of vi] by auto
  have "?b * ?m \<le> 1 * 1" using b m by (intro mult_mono) auto
  moreover have "0 \<le> ?b * ?m" using b m by simp
  ultimately show ?thesis using calculateConfidence_Some [OF Some, of st] by simp
qed

text \<open>
  Claim C1, as stated: for every mode and record the confidence is
  \<open>base * (0.7 + 0.3 * completeness)\<close> with the four-tier table 0.95 / 0.85 / 0.70 / 0.50.
  It fails for a general query: the table of \<open>calculateConfidence\<close> gives that mode 0.70,
  so a complete record scores 0.70 where the four-tier table gives 0.50.
\<close>

theorem confidence_table_counterexample:
  "calculateConfidence SearchTypeGeneralQuery exampleVolume
     \<noteq> spec_base SearchTypeGeneralQuery * (0.7 + 0.3 * spec_completeness exampleInfo)"
  by (simp add: calculateConfidence_def lookupConfidence_def baseConfidence_def exampleVolume_def
      exampleInfo_def dataPoints_def totalPoints_def spec_base_def spec_completeness_def
      spec_signals_def)

text \<open>
  Claim C1, amended: for the two modes the table of \<open>calculateConfidence\<close> lists,
  Identifier with base 0.95 and General with base 0.70, and every record whose volume
  information is present, the confidence is \<open>base * (0.7 + 0.3 * completeness)\<close>, where
  completeness is the number of the four signals (non-empty title, non-empty author
  list, at least one identifier, non-empty publisher) divided by 4.
\<close>

theorem confidence_table:
  assumes "VolumeInfo volume = Some vi"
  shows "calculateConfidence SearchTypeISBN volume = 0.95 * (0.7 + 0.3 * spec_completeness vi)
       \<and> calculateConfidence SearchTypeGeneralQuery volume
           = 0.70 * (0.7 + 0.3 * spec_completeness vi)"
  using assms
  by (simp add: calculateConfidence_def lookupConfidence_def baseConfidence_def dataPoints_spec
      Let_def)

theorem confidence_table_witness:
  "calculateConfidence SearchTypeISBN exampleVolume = 0.95
 \<and> calculateConfidence SearchTypeGeneralQuery exampleVolume = 0.70"
  using confidence_table [of exampleVolume exampleInfo]
  by (simp add: exampleVolume_def exampleInfo_def spec_completeness_def spec_signals_def)

text \<open>
  Claim C2: for each of the four modes the score lies in \<open>[0.35, 0.95]\<close>. The code at the
  modes TitleAuthor and Title: the table has no entry for them, the lookup yields the
  zero value, and the score of a complete record is 0, below 0.35.
\<close>

theorem confidence_zero_for_unlisted_modes:
  "calculateConfidence SearchTypeTitleAuthor exampleVolume = 0
 \<and> calculateConfidence SearchTypeTitle exampleVolume = 0
 \<and> \<not> (0.35 \<le> calculateConfidence SearchTypeTitleAuthor exampleVolume)"
  by (simp add: calculateConfidence_def lookupConfidence_def baseConfidence_def exampleVolume_def)

section \<open>Projection\<close>

lemma volumeToBookResult_None:
  "VolumeInfo volume = None \<Longrightarrow> volumeToBookResult volume st d = Inl ErrNilPointer"
  by (simp add: volumeToBookResult_def)

lemma volumeToBookResult_Some:
  assumes "VolumeInfo volume = Some vi"
  shows "\<exists>r. volumeToBookResult volume st d = Inr r"
  using assms by (simp add: volumeToBookResult_def Let_def)

lemma thumbnailOf_fields [simp]:
  "Confidence (thumbnailOf vi r) = Confidence r"
  "SearchType (thumbnailOf vi r) = SearchType r"
  "ISBN10 (thumbnailOf vi r) = ISBN10 r"
  "ISBN13 (thumbnailOf vi r) = ISBN13 r"
  "PublishedYear (thumbnailOf vi r) = PublishedYear r"
  by (simp_all add: thumbnailOf_def split: option.splits)

lemma backfillISBN_fields [simp]:
  "SearchType (backfillISBN d r) = SearchType r"
  "PublishedYear (backfillISBN d r) = PublishedYear r"
  by (simp_all add: backfillISBN_def)

lemma extractISBN_fields [simp]:
  "SearchType (extractISBN r i) = SearchType r"
  "PublishedYear (extractISBN r i) = PublishedYear r"
  by (simp_all add: extractISBN_def)

lemma foldl_extractISBN_fields [simp]:
  "SearchType (foldl extractISBN r ids) = SearchType r"
  "PublishedYear (foldl extractISBN r ids) = PublishedYear r"
  by (induction ids arbitrary: r) simp_all

lemma volumeToBookResult_Inr:
  assumes "volumeToBookResult volume st d = Inr r"
  shows "Confidence r = calculateConfidence st volume \<and> SearchType r = st"
  using assms
  by (auto simp: volumeToBookResult_def Let_def split: option.splits if_splits)

lemma ParseQuery_isbn13_example:
  "ParseQuery ''9780743273565'' = (''isbn:9780743273565'', SearchTypeISBN, ''9780743273565'')"
  by code_simp

lemma extractYear_example: "extractYear ''2004-09-30'' = 2004"
  by code_simp

lemma volumeToBookResult_example:
  "volumeToBookResult exampleVolume SearchTypeISBN ''9780743273565'' = Inr exampleResult"
  by (simp add: volumeToBookResult_def exampleVolume_def exampleInfo_def exampleResult_def
      extractISBN_def backfillISBN_def thumbnailOf_def extractYear_example
      calculateConfidence_def lookupConfidence_def baseConfidence_def dataPoints_def
      totalPoints_def Let_def)

lemma convertItems_Inr:
  assumes "convertItems marshal st d items = Inr results" "r \<in> set results"
  shows "0 \<le> Confidence r \<and> Confidence r \<le> 1 \<and> SearchType r = st"
  using assms
proof (induction items arbitrary: results)
  case Nil
  then show ?case by simp
next
  case (Cons v items)
  from Cons.prems(1) obtain r0 rs where
    r0: "volumeToBookResult v st d = Inr r0" and
    rs: "convertItems marshal st d items = Inr rs" and
    res: "results = r0\<lparr>GoogleBooksData := marshal v\<rparr> # rs"
    by (auto split: sum.splits)
  show ?case
  proof (cases "r \<in> set rs")
    case True
    then show ?thesis using Cons.IH [OF rs] by simp
  next
    case False
    with Cons.prems(2) res have "r = r0\<lparr>GoogleBooksData := marshal v\<rparr>" by simp
    then show ?thesis
      using volumeToBookResult_Inr [OF r0] calculateConfidence_unit [of st v] by simp
  qed
qed

text \<open>
  Claim C5: when an identifier was detected and the record's identifier list does not
  contain it, projection still writes it into the slot of its length. The code at the
  example record, which lists only the ISBN-13 of the book, with the book's ISBN-10 as
  the detected identifier: the list does not contain the detected identifier, the
  guard of the back-fill asks for both slots to be empty, the ISBN-13 slot is not, and
  the ISBN-10 slot stays empty.
\<close>

theorem backfill_skipped_when_record_lists_other_isbn:
  "''0743273567'' \<notin> set (map Identifier (IndustryIdentifiers exampleInfo))
 \<and> \<not> isl (volumeToBookResult exampleVolume SearchTypeISBN ''0743273567'')
 \<and> ISBN10 (projr (volumeToBookResult exampleVolume SearchTypeISBN ''0743273567'')) = []
 \<and> ISBN13 (projr (volumeToBookResult exampleVolume SearchTypeISBN ''0743273567''))
      = ''9780743273565''"
  by (simp add: volumeToBookResult_def exampleVolume_def exampleInfo_def
      extractISBN_def backfillISBN_def thumbnailOf_def Let_def)

text \<open>
  Claim C8: every result that \<open>Search\<close> returns has a confidence in \<open>[0, 1]\<close>, and its
  search type is the mode \<open>ParseQuery\<close> chose for the query.
\<close>

theorem search_results_invariant:
  assumes "Search listVolumes marshal query = Inr results" "r \<in> set results"
  shows "0 \<le> Confidence r \<and> Confidence r \<le> 1 \<and> SearchType r = fst (snd (ParseQuery query))"
proof -
  obtain q st d where p: "ParseQuery query = (q, st, d)" by (cases "ParseQuery query") auto
  from assms(1) p obtain items where "convertItems marshal st d items = Inr results"
    by (auto simp: Search_def split: if_splits sum.splits)
  from convertItems_Inr [OF this assms(2)] p show ?thesis by simp
qed

theorem search_results_invariant_witness:
  "0 \<le> Confidence exampleResult \<and> Confidence exampleResult \<le> 1
 \<and> SearchType exampleResult = SearchTypeISBN"
proof -
  have "Search (\<lambda>q. Inr [exampleVolume]) (\<lambda>v. None) ''9780743273565'' = Inr [exampleResult]"
    by (simp add: Search_def ParseQuery_isbn13_example volumeToBookResult_example
        exampleResult_def)
  from search_results_invariant [OF this, of exampleResult]
  show ?thesis by (simp add: ParseQuery_isbn13_example)
qed

text \<open>
  Claim C10: \<open>volumeToBookResult\<close> reads \<open>volume.VolumeInfo\<close> unguarded, so with a nil
  \<open>VolumeInfo\<close> it fails with the nil-pointer error, while \<open>calculateConfidence\<close> guards it
  and then returns the bare table value; with \<open>VolumeInfo\<close> present the projection returns
  a result and the completeness factor is applied to the table value.
\<close>

theorem projection_total_iff_info:
  "(VolumeInfo volume = None \<longrightarrow>
      volumeToBookResult volume st d = Inl ErrNilPointer
    \<and> calculateConfidence st volume = lookupConfidence st)
 \<and> (\<forall>vi. VolumeInfo volume = Some vi \<longrightarrow>
      (\<exists>r. volumeToBookResult volume st d = Inr r
         \<and> Confidence r = lookupConfidence st * (0.7 + 0.3 * (real (dataPoints vi) / 4))))"
proof (intro conjI impI allI)
  assume "VolumeInfo volume = None"
  then show "volumeToBookResult volume st d = Inl ErrNilPointer"
    by (rule volumeToBookResult_None)
next
  assume "VolumeInfo volume = None"
  then show "calculateConfidence st volume = lookupConfidence st"
    by (simp add: calculateConfidence_def)
next
  fix vi assume vi: "VolumeInfo volume = Some vi"
  then obtain r where r: "volumeToBookResult volume st d = Inr r"
    using volumeToBookResult_Some by blast
  have "Confidence r = lookupConfidence st * (0.7 + 0.3 * (real (dataPoints vi) / 4))"
    using volumeToBookResult_Inr [OF r] vi
    by (simp add: calculateConfidence_def totalPoints_def Let_def)
  with r show "\<exists>r. volumeToBookResult volume st d = Inr r
         \<and> Confidence r = lookupConfidence st * (0.7 + 0.3 * (real (dataPoints vi) / 4))"
    by blast
qed

theorem projection_total_iff_info_witness:
  "volumeToBookResult nilVolume SearchTypeISBN ''9780743273565'' = Inl ErrNilPointer
 \<and> calculateConfidence SearchTypeISBN nilVolume = 0.95
 \<and> \<not> isl (volumeToBookResult exampleVolume SearchTypeISBN ''9780743273565'')
 \<and> Confidence (projr (volumeToBookResult exampleVolume SearchTypeISBN ''9780743273565'')) = 0.95"
proof -
  have n: "VolumeInfo nilVolume = None" by (simp add: nilVolume_def)
  have s: "VolumeInfo exampleVolume = Some exampleInfo" by (simp add: exampleVolume_def)
  have d: "dataPoints exampleInfo = 4" by (simp add: dataPoints_def exampleInfo_def)
  have l: "lookupConfidence SearchTypeISBN = 0.95"
    by (simp add: lookupConfidence_def baseConfidence_def)
  from projection_total_iff_info [of nilVolume SearchTypeISBN "''9780743273565''"] n l
  have 1: "volumeToBookResult nilVolume SearchTypeISBN ''9780743273565'' = Inl ErrNilPointer
     \<and> calculateConfidence SearchTypeISBN nilVolume = 0.95" by simp
  from projection_total_iff_info [of exampleVolume SearchTypeISBN "''9780743273565''"] s d l
  obtain r where "volumeToBookResult exampleVolume SearchTypeISBN ''9780743273565'' = Inr r"
    and "Confidence r = 0.95" by auto
  with 1 show ?thesis by simp
qed

section \<open>The published year\<close>

lemma Split_hd: "Split s sep \<noteq> [] \<and> hd (Split s sep) = takeWhile (\<lambda>c. c \<noteq> sep) s"
  by (induction s) (auto split: list.splits)

lemma digitVal_nonneg: "isDigit c \<Longrightarrow> 0 \<le> digitVal c"
  by (simp add: isDigit_def digitVal_def)

lemma foldl_digits_nonneg:
  "list_all isDigit ds \<Longrightarrow> 0 \<le> n \<Longrightarrow> 0 \<le> foldl (\<lambda>n ch. n * 10 + digitVal ch) n ds"
  by (induction ds arbitrary: n) (simp_all add: digitVal_nonneg)

lemma digitsVal_nonneg: "list_all isDigit ds \<Longrightarrow> 0 \<le> digitsVal ds"
  by (simp add: digitsVal_def foldl_digits_nonneg)

lemma minus_not_digit: "\<not> isDigit (CHR ''-'')"
  by (simp add: isDigit_def)

lemma digits_no_minus: "list_all isDigit ds \<Longrightarrow> CHR ''-'' \<notin> set ds"
  using minus_not_digit by (auto simp: list_all_iff)

lemma Atoi_positive_no_minus:
  assumes "Atoi s = Some y" "0 < y"
  shows "CHR ''-'' \<notin> set s"
proof (cases s)
  case Nil
  then show ?thesis by simp
next
  case (Cons c cs)
  show ?thesis
  proof (cases "c = CHR ''-''")
    case True
    with assms Cons have "list_all isDigit cs" "y = - digitsVal cs"
      by (auto simp: Atoi_def Let_def split: if_splits)
    with digitsVal_nonneg [of cs] assms(2) show ?thesis by simp
  next
    case False
    with assms Cons show ?thesis
      by (auto simp: Atoi_def Let_def split: if_splits dest: digits_no_minus)
  qed
qed

lemma yearOf_no_minus: "yearOf s = Some y \<Longrightarrow> leadingToken s = s"
  unfolding leadingToken_def
  by (rule takeWhile_eq_all_conv [THEN iffD2])
     (auto simp: yearOf_def split: option.splits if_splits dest: Atoi_positive_no_minus)

lemma extractYear_token:
  "extractYear dateStr = (case yearOf (leadingToken dateStr) of Some year \<Rightarrow> year | None \<Rightarrow> 0)"
proof (cases "yearOf dateStr")
  case None
  obtain p ps where sp: "Split dateStr (CHR ''-'') = p # ps"
    using Split_hd [of dateStr "CHR ''-''"] by (cases "Split dateStr (CHR ''-'')") auto
  then have "p = leadingToken dateStr"
    using Split_hd [of dateStr "CHR ''-''"] by (simp add: leadingToken_def)
  with None sp show ?thesis by (simp add: extractYear_def)
next
  case (Some y)
  then show ?thesis by (simp add: extractYear_def yearOf_no_minus)
qed

lemma volumeToBookResult_year:
  assumes "VolumeInfo volume = Some vi" "volumeToBookResult volume st d = Inr r"
  shows "PublishedYear r = (if PublishedDate vi \<noteq> [] then extractYear (PublishedDate vi) else 0)"
  using assms by (auto simp: volumeToBookResult_def Let_def)

lemma extractYear_empty: "extractYear [] = 0"
  by (simp add: extractYear_def yearOf_def Atoi_def)

text \<open>
  Claim C7: projection of a record with volume information never fails, and the
  published year of the result is the number that the leading token of the date string
  denotes (the text before the first hyphen, read by \<open>Atoi\<close>) when that number is
  strictly between 1000 and 3000, and 0 (unset) for every other date string: an empty
  one, one whose leading token is not a number, one whose number is out of range.
\<close>

theorem published_year_from_leading_token:
  assumes "VolumeInfo volume = Some vi"
  shows "\<exists>r. volumeToBookResult volume st d = Inr r
       \<and> PublishedYear r =
           (case Atoi (leadingToken (PublishedDate vi)) of
              None \<Rightarrow> 0
            | Some year \<Rightarrow> if 1000 < year \<and> year < 3000 then year else 0)"
proof -
  obtain r where r: "volumeToBookResult volume st d = Inr r"
    using volumeToBookResult_Some [OF assms] by blast
  have "PublishedYear r = extractYear (PublishedDate vi)"
    using volumeToBookResult_year [OF assms r] extractYear_empty by auto
  then show ?thesis
    using r by (auto simp: extractYear_token yearOf_def split: option.splits)
qed

theorem published_year_from_leading_token_witness:
  "\<not> isl (volumeToBookResult exampleVolume SearchTypeISBN ''9780743273565'')
 \<and> PublishedYear (projr (volumeToBookResult exampleVolume SearchTypeISBN ''9780743273565'')) = 2004"
proof -
  have vi: "VolumeInfo exampleVolume = Some exampleInfo" by (simp add: exampleVolume_def)
  have a: "Atoi (leadingToken (PublishedDate exampleInfo)) = Some 2004"
    unfolding exampleInfo_def by code_simp
  from published_year_from_leading_token [OF vi, of SearchTypeISBN "''9780743273565''"] a
  show ?thesis by auto
qed

section \<open>Trimming\<close>

lemma spaceRunes_nonempty: "[] \<notin> set spaceRunes"
  by (simp add: spaceRunes_def)

lemma spaceRunes_prefixFree: "prefixFree spaceRunes"
  unfolding prefixFree_def spaceRunes_def by (simp (no_asm))

lemma revRunes_prefixFree: "prefixFree (map rev spaceRunes)"
  unfolding prefixFree_def spaceRunes_def by (simp (no_asm))

lemma find_prefix_token:
  assumes "prefixFree toks" "t \<in> set toks"
  shows "find (\<lambda>x. prefix x (t @ r)) toks = Some t"
proof -
  have "\<exists>x\<in>set toks. prefix x (t @ r)" using assms(2) by (intro bexI [of _ t]) simp_all
  then obtain x where x: "find (\<lambda>x. prefix x (t @ r)) toks = Some x"
    by (cases "find (\<lambda>x. prefix x (t @ r)) toks") (auto simp: find_None_iff)
  then have "x \<in> set toks" "prefix x (t @ r)"
    by (auto simp: find_Some_iff)
  then have "prefix x t \<or> prefix t x"
    by (metis prefix_same_cases prefixI)
  with assms \<open>x \<in> set toks\<close> have "x = t" by (auto simp: prefixFree_def)
  with x show ?thesis by simp
qed

lemma spaceWidth_token:
  "prefixFree toks \<Longrightarrow> t \<in> set toks \<Longrightarrow> spaceWidth toks (t @ r) = length t"
  by (simp add: spaceWidth_def find_prefix_token)

lemma trimPrefix_token:
  assumes "prefixFree toks" "t \<in> set toks" "t \<noteq> []"
  shows "trimPrefix toks (t @ r) = trimPrefix toks r"
proof -
  obtain c t' where t: "t = c # t'" using assms(3) by (cases t) auto
  have "spaceWidth toks (c # t' @ r) = Suc (length t')"
    using spaceWidth_token [OF assms(1,2), of r] t by simp
  then show ?thesis using t by simp
qed

lemma trimPrefix_concat:
  assumes "prefixFree toks" "[] \<notin> set toks" "set ts \<subseteq> set toks"
  shows "trimPrefix toks (concat ts @ r) = trimPrefix toks r"
  using assms(3)
proof (induction ts)
  case Nil
  then show ?case by simp
next
  case (Cons t ts)
  then have "t \<in> set toks" "t \<noteq> []" using assms(2) by auto
  then show ?case using Cons trimPrefix_token [OF assms(1)] by simp
qed

lemma trimPrefix_stop: "spaceWidth toks s = 0 \<Longrightarrow> trimPrefix toks s = s"
  by (cases s) simp_all

lemma TrimSpace_all_space:
  assumes "set ts \<subseteq> set spaceRunes"
  shows "TrimSpace (concat ts) = []"
  using trimPrefix_concat [OF spaceRunes_prefixFree spaceRunes_nonempty assms, of "[]"]
  by (simp add: TrimSpace_def)

lemma detect_empty:
  "detectISBN13 [] = None" "detectISBN10 [] = None" "hasAuthorMarker [] = False"
  by code_simp+

lemma ParseQuery_empty_trim:
  "TrimSpace input = [] \<Longrightarrow>
   ParseQuery input = (''intitle:'' @ [CHR 0x22, CHR 0x22], SearchTypeTitle, [])"
  by (simp add: ParseQuery_def detect_empty)

text \<open>
  Claim C9: \<open>Search\<close> compares the untrimmed query with the empty string. For a
  non-empty query made only of white-space runes it does not return the empty-query
  error: \<open>ParseQuery\<close> trims the query to the empty string and returns mode Title with
  the query \<^verbatim>\<open>intitle:""\<close>, which is what the service is called with.
\<close>

theorem whitespace_query_is_title_search:
  assumes "ts \<noteq> []" "set ts \<subseteq> set spaceRunes"
  shows "concat ts \<noteq> []
       \<and> ParseQuery (concat ts) = (''intitle:'' @ [CHR 0x22, CHR 0x22], SearchTypeTitle, [])
       \<and> Search listVolumes marshal (concat ts) =
           (case listVolumes (''intitle:'' @ [CHR 0x22, CHR 0x22]) of
              Inl msg \<Rightarrow> Inl (ErrUpstream msg)
            | Inr items \<Rightarrow> convertItems marshal SearchTypeTitle [] items)
       \<and> Search listVolumes marshal (concat ts) \<noteq> Inl ErrQueryEmpty"
proof -
  have ne: "concat ts \<noteq> []"
    using assms spaceRunes_nonempty by (cases ts) auto
  have pq: "ParseQuery (concat ts) = (''intitle:'' @ [CHR 0x22, CHR 0x22], SearchTypeTitle, [])"
    by (rule ParseQuery_empty_trim) (rule TrimSpace_all_space [OF assms(2)])
  have s: "Search listVolumes marshal (concat ts) =
           (case listVolumes (''intitle:'' @ [CHR 0x22, CHR 0x22]) of
              Inl msg \<Rightarrow> Inl (ErrUpstream msg)
            | Inr items \<Rightarrow> convertItems marshal SearchTypeTitle [] items)"
    using ne pq by (auto simp: Search_def)
  have c: "convertItems marshal st d items \<noteq> Inl ErrQueryEmpty" for st d items
    by (induction items) (auto simp: volumeToBookResult_def Let_def split: sum.splits option.splits)
  have "Search listVolumes marshal (concat ts) \<noteq> Inl ErrQueryEmpty"
    unfolding s using c by (auto split: sum.splits)
  with ne pq s show ?thesis by blast
qed

theorem whitespace_query_is_title_search_witness:
  "ParseQuery [CHR 0x20, CHR 0x09, CHR 0xC2, CHR 0xA0]
     = (''intitle:'' @ [CHR 0x22, CHR 0x22], SearchTypeTitle, [])
 \<and> Search (\<lambda>q. Inr []) (\<lambda>v. None) [CHR 0x20, CHR 0x09, CHR 0xC2, CHR 0xA0] = Inr []"
  using whitespace_query_is_title_search
    [of "[[CHR 0x20], [CHR 0x09], [CHR 0xC2, CHR 0xA0]]" "\<lambda>q. Inr []" "\<lambda>v. None"]
  by (simp add: spaceRunes_def)

section \<open>Matching depends on the byte classes only\<close>












section \<open>Detection of a 13-digit identifier\<close>































section \<open>Candidates with another prefix\<close>


















section \<open>Author markers\<close>




end
